theory Spec2Isabelle
  imports Main
begin

section \<open>Text: Python strings as code point sequences\<close>

text \<open>
  A Python \<open>str\<close> is a sequence of Unicode code points; it is modelled as a list of
  natural numbers. The script uses four facilities of the Unicode character database
  (through \<open>unicodedata\<close>, \<open>str.lower\<close> and the \<open>\\d\<close> class of \<open>re\<close>). On ASCII
  they are written out below; beyond ASCII they are read from the tables of a record
  \<open>world\<close>, which also carries the libraries and files one run of the script sees.
\<close>

type_synonym ustr = "nat list"

definition u :: "string \<Rightarrow> ustr" where
  "u s = map of_char s"

record date =
  year :: nat
  month :: nat
  day :: nat

datatype cell = PyNone | NaN | Str ustr | Num ustr

datatype dtype = Object | Int64 | Float64 | Bool

record column =
  cname :: string
  ctype :: dtype
  cells :: "cell list"

record frame =
  nrows :: nat
  columns :: "column list"

record world =
  decomposition :: "nat \<Rightarrow> nat list"
  combining :: "nat \<Rightarrow> nat"
  decimal :: "nat \<Rightarrow> nat option"
  lower_ext :: "ustr \<Rightarrow> ustr"
  to_datetime :: "ustr \<Rightarrow> date option"
  path_exists :: bool
  chardet_encoding :: "string option"
  read_csv :: "string option \<Rightarrow> string + frame"

text \<open>
  \<open>decomposition\<close>: the full compatibility decomposition of a character beyond ASCII;
  \<open>combining\<close>: its canonical combining class (\<open>unicodedata.combining\<close>);
  \<open>decimal\<close>: its value when it is a decimal digit (what \<open>\\d\<close> and \<open>int\<close> accept);
  \<open>lower_ext\<close>: \<open>str.lower\<close> on a string that is not pure ASCII;
  \<open>to_datetime\<close>: \<open>pd.to_datetime(s, dayfirst=True, errors="coerce")\<close>, with \<open>None\<close>
  for \<open>NaT\<close> and the \<open>.date()\<close> of the timestamp otherwise;
  \<open>path_exists\<close>: \<open>os.path.exists(INPUT_CSV)\<close>;
  \<open>chardet_encoding\<close>: \<open>chardet.detect(raw).get("encoding")\<close> on the first 100000 bytes;
  \<open>read_csv\<close>: \<open>pd.read_csv(INPUT_CSV, encoding=enc)\<close>, \<open>None\<close> standing for the call
  without an encoding, \<open>Inl\<close> for a raised exception.

  A cell of a frame is \<open>None\<close>, the float NaN that \<open>read_csv\<close> puts in a blank cell,
  a string, or a number or boolean; of the last the script only ever reads its \<open>str()\<close>,
  which \<open>Num\<close> carries.
\<close>

definition isspace :: "nat \<Rightarrow> bool" where
  "isspace c = ((9 \<le> c \<and> c \<le> 13) \<or> (28 \<le> c \<and> c \<le> 32) \<or> c = 133 \<or> c = 160
     \<or> c = 5760 \<or> (8192 \<le> c \<and> c \<le> 8202) \<or> c = 8232 \<or> c = 8233
     \<or> c = 8239 \<or> c = 8287 \<or> c = 12288)"

definition strip :: "ustr \<Rightarrow> ustr" where
  "strip s = rev (dropWhile isspace (rev (dropWhile isspace s)))"

definition lower_ascii :: "nat \<Rightarrow> nat" where
  "lower_ascii c = (if 65 \<le> c \<and> c \<le> 90 then c + 32 else c)"

definition lower :: "world \<Rightarrow> ustr \<Rightarrow> ustr" where
  "lower W s = (if list_all (\<lambda>c. c < 128) s then map lower_ascii s else lower_ext W s)"

definition digit_value :: "world \<Rightarrow> nat \<Rightarrow> nat option" where
  "digit_value W c =
     (if c < 128 then (if 48 \<le> c \<and> c \<le> 57 then Some (c - 48) else None)
      else decimal W c)"

definition is_digit :: "world \<Rightarrow> nat \<Rightarrow> bool" where
  "is_digit W c = (digit_value W c \<noteq> None)"

text \<open>\<open>int(s)\<close> on a string the format's pattern has matched: optional blanks, then digits.\<close>

definition py_int :: "world \<Rightarrow> ustr \<Rightarrow> nat" where
  "py_int W s = foldl (\<lambda>acc c. 10 * acc + (case digit_value W c of Some v \<Rightarrow> v | None \<Rightarrow> 0)) 0 (strip s)"

fun str_cell :: "cell \<Rightarrow> ustr" where
  "str_cell PyNone = u ''None''"
| "str_cell NaN = u ''nan''"
| "str_cell (Str s) = s"
| "str_cell (Num t) = t"

section \<open>Calendar dates and \<open>datetime.strptime\<close>\<close>

definition is_leap :: "nat \<Rightarrow> bool" where
  "is_leap y = (y mod 4 = 0 \<and> (y mod 100 \<noteq> 0 \<or> y mod 400 = 0))"

definition days_in_month :: "nat \<Rightarrow> nat \<Rightarrow> nat" where
  "days_in_month y m =
     (if m = 2 then (if is_leap y then 29 else 28)
      else if m = 4 \<or> m = 6 \<or> m = 9 \<or> m = 11 then 30 else 31)"

text \<open>What the constructor \<open>datetime.date(y, m, d)\<close> accepts; otherwise it raises ValueError.\<close>

definition valid_date :: "date \<Rightarrow> bool" where
  "valid_date d = (1 \<le> year d \<and> year d \<le> 9999 \<and> 1 \<le> month d \<and> month d \<le> 12
     \<and> 1 \<le> day d \<and> day d \<le> days_in_month (year d) (month d))"

text \<open>
  Regular expressions. A piece of a pattern is a function that returns the list of its
  matches at the head of a string, each as the matched value and the rest of the string,
  in the order in which the backtracking matcher of \<open>re\<close> tries them; \<open>seq\<close> is
  concatenation of pieces and \<open>alt\<close> is \<open>|\<close>. The first element of the list is the
  match \<open>re.match\<close> reports.
\<close>

type_synonym 'a piece = "ustr \<Rightarrow> ('a \<times> ustr) list"

definition seq :: "'a piece \<Rightarrow> 'b piece \<Rightarrow> ('a \<times> 'b) piece" where
  "seq p q s = concat (map (\<lambda>(a, r). map (\<lambda>(b, r'). ((a, b), r')) (q r)) (p s))"

definition alt :: "'a piece \<Rightarrow> 'a piece \<Rightarrow> 'a piece" where
  "alt p q s = p s @ q s"

definition chr_in :: "nat \<Rightarrow> nat \<Rightarrow> ustr piece" where
  "chr_in lo hi s = (case s of [] \<Rightarrow> [] | c # r \<Rightarrow> (if lo \<le> c \<and> c \<le> hi then [([c], r)] else []))"

definition re_digit :: "world \<Rightarrow> ustr piece" where
  "re_digit W s = (case s of [] \<Rightarrow> [] | c # r \<Rightarrow> (if is_digit W c then [([c], r)] else []))"

definition cat :: "ustr piece \<Rightarrow> ustr piece \<Rightarrow> ustr piece" where
  "cat p q s = map (\<lambda>((a, b), r). (a @ b, r)) (seq p q s)"

text \<open>
  The directives of \<open>_strptime\<close>: \<open>%d\<close> is \<open>3[0-1]|[1-2]\\d|0[1-9]|[1-9]| [1-9]\<close>,
  \<open>%m\<close> is \<open>1[0-2]|0[1-9]|[1-9]\<close>, \<open>%y\<close> is \<open>\\d\\d\<close> and \<open>%Y\<close> is \<open>\\d\\d\\d\\d\<close>.
\<close>

definition re_d :: "world \<Rightarrow> ustr piece" where
  "re_d W = alt (cat (chr_in 51 51) (chr_in 48 49))
           (alt (cat (chr_in 49 50) (re_digit W))
           (alt (cat (chr_in 48 48) (chr_in 49 57))
           (alt (chr_in 49 57)
                (cat (chr_in 32 32) (chr_in 49 57)))))"

definition re_m :: "ustr piece" where
  "re_m = alt (cat (chr_in 49 49) (chr_in 48 50))
         (alt (cat (chr_in 48 48) (chr_in 49 57))
              (chr_in 49 57))"

definition re_y :: "world \<Rightarrow> ustr piece" where
  "re_y W = cat (re_digit W) (re_digit W)"

definition re_Y :: "world \<Rightarrow> ustr piece" where
  "re_Y W = cat (re_digit W) (cat (re_digit W) (cat (re_digit W) (re_digit W)))"

datatype year_directive = Y2 | Y4

definition format_regex :: "world \<Rightarrow> year_directive \<Rightarrow> (ustr \<times> ustr \<times> ustr) piece" where
  "format_regex W f s =
     map (\<lambda>((d, _, m, _, y), r). ((d, m, y), r))
       (seq (re_d W) (seq (chr_in 47 47) (seq re_m (seq (chr_in 47 47)
          (case f of Y2 \<Rightarrow> re_y W | Y4 \<Rightarrow> re_Y W)))) s)"

text \<open>
  \<open>datetime.strptime(s, fmt).date()\<close> for the two formats \<open>%d/%m/%y\<close> (\<open>Y2\<close>) and
  \<open>%d/%m/%Y\<close> (\<open>Y4\<close>); \<open>None\<close> is the ValueError: no match, unconverted data after
  the match, or numbers that are no date. A two-digit year up to 68 is in 2000-2068,
  from 69 on in 1969-1999.
\<close>

definition strptime :: "world \<Rightarrow> ustr \<Rightarrow> year_directive \<Rightarrow> date option" where
  "strptime W s f =
     (case format_regex W f s of
        [] \<Rightarrow> None
      | ((d, m, y), rest) # _ \<Rightarrow>
          if rest \<noteq> [] then None
          else let yy = py_int W y;
                   dt = \<lparr>year = (case f of Y2 \<Rightarrow> (if yy \<le> 68 then yy + 2000 else yy + 1900) | Y4 \<Rightarrow> yy),
                         month = py_int W m, day = py_int W d\<rparr>
               in if valid_date dt then Some dt else None)"

section \<open>\<open>parse_date_ddmmy\<close>\<close>

fun try_formats :: "world \<Rightarrow> ustr \<Rightarrow> year_directive list \<Rightarrow> date option" where
  "try_formats W s [] = to_datetime W s"
| "try_formats W s (f # fs) =
     (case strptime W s f of Some d \<Rightarrow> Some d | None \<Rightarrow> try_formats W s fs)"

definition sentinels :: "ustr list" where
  "sentinels = [u ''nan'', u ''none'', u ''null'']"

definition parse_date_ddmmy :: "world \<Rightarrow> cell \<Rightarrow> date option" where
  "parse_date_ddmmy W v =
     (if v = PyNone then None
      else let s = strip (str_cell v)
           in if s = [] \<or> lower W s \<in> set sentinels then None
              else try_formats W s [Y2, Y4])"

section \<open>\<open>remove_diacritics\<close>\<close>

text \<open>
  \<open>unicodedata.normalize("NFKD", text)\<close> replaces every character by its full
  compatibility decomposition and then puts each run of characters of non-zero
  combining class into ascending order of class, keeping the order of equal classes.
  ASCII characters decompose to themselves and have class 0.
\<close>

definition decompose :: "world \<Rightarrow> nat \<Rightarrow> nat list" where
  "decompose W c = (if c < 128 then [c] else decomposition W c)"

definition unicodedata_combining :: "world \<Rightarrow> nat \<Rightarrow> nat" where
  "unicodedata_combining W c = (if c < 128 then 0 else combining W c)"

fun reorder_insert :: "world \<Rightarrow> nat \<Rightarrow> ustr \<Rightarrow> ustr" where
  "reorder_insert W c [] = [c]"
| "reorder_insert W c (d # ds) =
     (if unicodedata_combining W d \<noteq> 0 \<and> unicodedata_combining W d < unicodedata_combining W c
      then d # reorder_insert W c ds else c # d # ds)"

fun canonical_order :: "world \<Rightarrow> ustr \<Rightarrow> ustr" where
  "canonical_order W [] = []"
| "canonical_order W (c # cs) = reorder_insert W c (canonical_order W cs)"

definition normalize_NFKD :: "world \<Rightarrow> ustr \<Rightarrow> ustr" where
  "normalize_NFKD W s = canonical_order W (concat (map (decompose W) s))"

text \<open>\<open>s.split()\<close>: the maximal runs of non-blank characters; \<open>sep.join(ws)\<close>.\<close>

fun split_words :: "ustr \<Rightarrow> ustr \<Rightarrow> ustr list" where
  "split_words cur [] = (if cur = [] then [] else [cur])"
| "split_words cur (c # cs) =
     (if isspace c then (if cur = [] then split_words [] cs else cur # split_words [] cs)
      else split_words (cur @ [c]) cs)"

definition split_ws :: "ustr \<Rightarrow> ustr list" where
  "split_ws s = split_words [] s"

fun join :: "ustr \<Rightarrow> ustr list \<Rightarrow> ustr" where
  "join sep [] = []"
| "join sep [w] = w"
| "join sep (w # ws) = w @ sep @ join sep ws"

definition remove_diacritics :: "world \<Rightarrow> cell \<Rightarrow> cell" where
  "remove_diacritics W text =
     (case text of
        Str s \<Rightarrow>
          (let out = filter (\<lambda>c. unicodedata_combining W c = 0) (normalize_NFKD W s)
           in Str (join [32] (split_ws out)))
      | _ \<Rightarrow> text)"


section \<open>ISO rendering and the check \<open>ISO_RE\<close>\<close>

fun decimal_digits :: "nat \<Rightarrow> ustr" where
  "decimal_digits n = (if n < 10 then [48 + n] else decimal_digits (n div 10) @ [48 + n mod 10])"

declare decimal_digits.simps [simp del]

text \<open>\<open>"%0wd" % n\<close>: the decimal digits of \<open>n\<close>, filled with zeros on the left up to width \<open>w\<close>.\<close>

definition zero_padded :: "nat \<Rightarrow> nat \<Rightarrow> ustr" where
  "zero_padded w n = replicate (w - length (decimal_digits n)) 48 @ decimal_digits n"

text \<open>\<open>date.isoformat()\<close> is \<open>"%04d-%02d-%02d" % (year, month, day)\<close>.\<close>

definition isoformat :: "date \<Rightarrow> ustr" where
  "isoformat d = zero_padded 4 (year d) @ [45] @ zero_padded 2 (month d) @ [45] @ zero_padded 2 (day d)"

text \<open>
  \<open>ISO_RE = re.compile(r"^\\d{4}-\\d{2}-\\d{2}$")\<close>, applied with \<open>re.match\<close> by
  \<open>Series.str.match\<close>; \<open>$\<close> holds at the end of the string and before a final newline.
\<close>

definition ISO_RE :: "world \<Rightarrow> (ustr \<times> ustr \<times> ustr \<times> ustr \<times> ustr) piece" where
  "ISO_RE W = seq (re_Y W) (seq (chr_in 45 45) (seq (re_y W) (seq (chr_in 45 45) (re_y W))))"

definition str_match_ISO_RE :: "world \<Rightarrow> ustr \<Rightarrow> bool" where
  "str_match_ISO_RE W s = list_ex (\<lambda>(_, r). r = [] \<or> r = [10]) (ISO_RE W s)"

section \<open>Data frames\<close>

text \<open>
  A frame is the ordered sequence of its named columns. \<open>df[c]\<close> reads a column;
  \<open>df[c] = values\<close> overwrites the cells of the column named \<open>c\<close> where it stands, or
  appends a new last column when the frame has none of that name; the values assigned
  in the script are strings or cells of a text column, so the column has dtype object.
  Reading a column the frame does not have raises KeyError; the script reads
  \<open>start_date\<close> and \<open>end_date\<close> after it has checked that they are there, and the
  selection of line 110, which may name an absent \<open>event_id\<close>, is modelled with its
  error. \<open>get_cells\<close> is therefore only applied to columns that exist; for an absent
  name it is the empty list.
\<close>

definition column_names :: "frame \<Rightarrow> string list" where
  "column_names df = map cname (columns df)"

definition get_cells :: "frame \<Rightarrow> string \<Rightarrow> cell list" where
  "get_cells df c = (case find (\<lambda>col. cname col = c) (columns df) of Some col \<Rightarrow> cells col | None \<Rightarrow> [])"

definition set_column :: "frame \<Rightarrow> string \<Rightarrow> cell list \<Rightarrow> frame" where
  "set_column df c vs =
     (if c \<in> set (column_names df)
      then df\<lparr>columns := map (\<lambda>col. if cname col = c then col\<lparr>ctype := Object, cells := vs\<rparr> else col) (columns df)\<rparr>
      else df\<lparr>columns := columns df @ [\<lparr>cname = c, ctype = Object, cells = vs\<rparr>]\<rparr>)"


section \<open>The run of the script\<close>

text \<open>
  A run is observed through the calls it makes to \<open>read_csv\<close> and the lines it prints,
  in order, and ends in an exception or in the call of \<open>to_csv\<close>.
\<close>

datatype message =
    Detected_encoding "string option"
  | Read_csv_ok string
  | Failed_with_encoding string string
  | Read_csv_ok_default
  | Normalizing nat
  | Rows_unparsable nat nat nat
  | ISO_check_failed
  | Sample "(cell \<times> cell \<times> cell) list"
  | Wrote

datatype action = Call_read_csv "string option" | Print message

datatype error =
    FileNotFoundError
  | Read_error string
  | Raise_None
  | Missing_required "string list"
  | Not_in_index "string list"
  | ISO_formatting_check_failed

record to_csv_call =
  written :: frame
  index :: bool
  header :: bool
  encoding :: string

definition detect_encoding :: "world \<Rightarrow> action list \<times> string option" where
  "detect_encoding W = ([Print (Detected_encoding (chardet_encoding W))], chardet_encoding W)"

text \<open>\<open>[e for e in tried if e]\<close>: \<open>None\<close> and the empty string are dropped.\<close>

definition candidates :: "string option list \<Rightarrow> string list" where
  "candidates tried = concat (map (\<lambda>e. case e of None \<Rightarrow> [] | Some n \<Rightarrow> (if n = [] then [] else [n])) tried)"

text \<open>
  The loop of lines 71-78, returning the trace, \<open>df\<close> and \<open>last_err\<close>; the \<open>break\<close> is the
  branch that does not recur.
\<close>

fun try_encodings :: "world \<Rightarrow> string list \<Rightarrow> string option \<Rightarrow> action list \<times> frame option \<times> string option" where
  "try_encodings W [] last_err = ([], None, last_err)"
| "try_encodings W (enc # rest) last_err =
     (case read_csv W (Some enc) of
        Inr df \<Rightarrow> ([Call_read_csv (Some enc), Print (Read_csv_ok enc)], Some df, last_err)
      | Inl e \<Rightarrow>
          (case try_encodings W rest (Some e) of
             (tr, df, le) \<Rightarrow> (Call_read_csv (Some enc) # Print (Failed_with_encoding enc e) # tr, df, le)))"

text \<open>Lines 66-86. \<open>raise last_err\<close> with \<open>last_err\<close> still \<open>None\<close> would be a TypeError.\<close>

definition load_csv :: "world \<Rightarrow> action list \<times> (error + frame)" where
  "load_csv W =
     (case detect_encoding W of (t0, enc_guess) \<Rightarrow>
        let tried = [enc_guess, Some ''utf-8-sig'', Some ''utf-8'', Some ''latin1'', Some ''windows-1252'']
        in case try_encodings W (candidates tried) None of
             (t1, Some df, last_err) \<Rightarrow> (t0 @ t1, Inr df)
           | (t1, None, last_err) \<Rightarrow>
               (case read_csv W None of
                  Inr df \<Rightarrow> (t0 @ t1 @ [Call_read_csv None, Print Read_csv_ok_default], Inr df)
                | Inl _ \<Rightarrow>
                    (t0 @ t1 @ [Call_read_csv None],
                     Inl (case last_err of Some e \<Rightarrow> Read_error e | None \<Rightarrow> Raise_None))))"

text \<open>Lines 89-92: \<open>df[c] = df[c].apply(remove_diacritics)\<close> for each column of dtype object.\<close>

definition object_cols :: "frame \<Rightarrow> string list" where
  "object_cols df = map cname (filter (\<lambda>col. ctype col = Object) (columns df))"

definition normalize_text :: "world \<Rightarrow> frame \<Rightarrow> frame" where
  "normalize_text W df =
     foldl (\<lambda>d c. set_column d c (map (remove_diacritics W) (get_cells d c))) df (object_cols df)"

definition required :: "string list" where
  "required = [''start_date'', ''end_date'']"

definition missing :: "frame \<Rightarrow> string list" where
  "missing df = filter (\<lambda>c. c \<notin> set (column_names df)) required"

definition iso_or_empty :: "date option \<Rightarrow> ustr" where
  "iso_or_empty d = (case d of Some dt \<Rightarrow> isoformat dt | None \<Rightarrow> [])"

text \<open>Lines 107-108: \<open>sum(1 for d, raw in zip(parsed, column) if d is None and str(raw).strip() != "")\<close>.\<close>

definition unparsable :: "date option list \<Rightarrow> cell list \<Rightarrow> nat" where
  "unparsable parsed raws =
     sum_list (map (\<lambda>_. 1) (filter (\<lambda>(d, raw). d = None \<and> strip (str_cell raw) \<noteq> []) (zip parsed raws)))"

text \<open>
  Lines 110-111: the rows whose ISO string is not empty and does not match \<open>ISO_RE\<close>,
  each with its \<open>event_id\<close>, its raw value and its ISO string. Selecting a column the
  frame does not have makes \<open>df.loc\<close> raise a KeyError that lists the absent labels.
\<close>

definition absent_labels :: "frame \<Rightarrow> string list \<Rightarrow> string list" where
  "absent_labels df labels = filter (\<lambda>c. c \<notin> set (column_names df)) labels"

definition bad_iso :: "world \<Rightarrow> cell list \<Rightarrow> cell list \<Rightarrow> ustr list \<Rightarrow> (cell \<times> cell \<times> cell) list" where
  "bad_iso W ids raws isos =
     map (\<lambda>(i, r, s). (i, r, Str s))
       (filter (\<lambda>(i, r, s). s \<noteq> [] \<and> \<not> str_match_ISO_RE W s) (zip ids (zip raws isos)))"

text \<open>Lines 88-124: what \<open>main\<close> does with the frame it has loaded.\<close>

definition process :: "world \<Rightarrow> frame \<Rightarrow> action list \<times> (error + to_csv_call)" where
  "process W df0 =
     (let df1 = normalize_text W df0;
          t1 = [Print (Normalizing (length (object_cols df0)))]
      in if missing df1 \<noteq> [] then (t1, Inl (Missing_required (missing df1)))
         else
           let start_parsed = map (parse_date_ddmmy W) (get_cells df1 ''start_date'');
               end_parsed = map (parse_date_ddmmy W) (get_cells df1 ''end_date'');
               start_iso = map iso_or_empty start_parsed;
               end_iso = map iso_or_empty end_parsed;
               df2 = set_column df1 ''start_date_iso'' (map Str start_iso);
               df3 = set_column df2 ''end_date_iso'' (map Str end_iso);
               unparsable_start = unparsable start_parsed (get_cells df3 ''start_date'');
               unparsable_end = unparsable end_parsed (get_cells df3 ''end_date'');
               sel_start = [''event_id'', ''start_date'', ''start_date_iso''];
               sel_end = [''event_id'', ''end_date'', ''end_date_iso'']
           in if absent_labels df3 sel_start \<noteq> [] then (t1, Inl (Not_in_index (absent_labels df3 sel_start)))
              else if absent_labels df3 sel_end \<noteq> [] then (t1, Inl (Not_in_index (absent_labels df3 sel_end)))
              else
                let bad_start_iso = bad_iso W (get_cells df3 ''event_id'') (get_cells df3 ''start_date'') start_iso;
                    bad_end_iso = bad_iso W (get_cells df3 ''event_id'') (get_cells df3 ''end_date'') end_iso;
                    t2 = t1 @ [Print (Rows_unparsable (nrows df3) unparsable_start unparsable_end)]
                in if bad_start_iso \<noteq> [] \<or> bad_end_iso \<noteq> []
                   then (t2 @ [Print ISO_check_failed]
                           @ (if bad_start_iso \<noteq> [] then [Print (Sample (take 5 bad_start_iso))] else [])
                           @ (if bad_end_iso \<noteq> [] then [Print (Sample (take 5 bad_end_iso))] else []),
                         Inl ISO_formatting_check_failed)
                   else (t2 @ [Print Wrote],
                         Inr \<lparr>written = df3, index = False, header = True, encoding = ''utf-8-sig''\<rparr>))"

definition main :: "world \<Rightarrow> action list \<times> (error + to_csv_call)" where
  "main W =
     (if \<not> path_exists W then ([], Inl FileNotFoundError)
      else case load_csv W of
             (t, Inl e) \<Rightarrow> (t, Inl e)
           | (t, Inr df) \<Rightarrow> (case process W df of (t', r) \<Rightarrow> (t @ t', r)))"

text \<open>What a trace shows: the encodings \<open>read_csv\<close> was called with, and the lines printed.\<close>

definition read_csv_calls :: "action list \<Rightarrow> string option list" where
  "read_csv_calls tr = concat (map (\<lambda>a. case a of Call_read_csv e \<Rightarrow> [e] | Print _ \<Rightarrow> []) tr)"

definition printed :: "action list \<Rightarrow> message list" where
  "printed tr = concat (map (\<lambda>a. case a of Call_read_csv _ \<Rightarrow> [] | Print m \<Rightarrow> [m]) tr)"


section \<open>A sample run\<close>

text \<open>
  A frame of two events and a world in which the file decodes under \<open>latin1\<close> only,
  the detector abstains, the character tables know one accented letter and the tolerant
  parser one date; the general results below are applied to them.
\<close>

definition demo_frame :: frame where
  "demo_frame = \<lparr>nrows = 2, columns =
     [\<lparr>cname = ''event_id'', ctype = Int64, cells = [Num (u ''1''), Num (u ''2'')]\<rparr>,
      \<lparr>cname = ''brand'', ctype = Object, cells = [Str [233, 99, 108, 97, 116], Str (u ''Dior  Pop'')]\<rparr>,
      \<lparr>cname = ''start_date'', ctype = Object, cells = [Str (u ''05/03/24''), NaN]\<rparr>,
      \<lparr>cname = ''end_date'', ctype = Object, cells = [Str (u ''07/03/2024''), Str (u ''soon'')]\<rparr>]\<rparr>"

definition demo_world :: world where
  "demo_world = \<lparr>decomposition = (\<lambda>c. if c = 233 then [101, 769] else [c]),
     combining = (\<lambda>c. if c = 769 then 230 else 0),
     decimal = (\<lambda>c. None), lower_ext = (\<lambda>s. s),
     to_datetime = (\<lambda>s. if s = u ''5 March 2024'' then Some \<lparr>year = 2024, month = 3, day = 5\<rparr> else None),
     path_exists = True, chardet_encoding = None,
     read_csv = (\<lambda>e. if e = Some ''latin1'' then Inr demo_frame else Inl ''cannot decode'')\<rparr>"

text \<open>The same world with another file: every call of \<open>read_csv\<close> returns the frame given.\<close>

definition world_with :: "frame \<Rightarrow> world" where
  "world_with df = demo_world\<lparr>read_csv := (\<lambda>e. Inr df)\<rparr>"

definition frame_without_end_date :: frame where
  "frame_without_end_date = \<lparr>nrows = 1, columns =
     [\<lparr>cname = ''event_id'', ctype = Int64, cells = [Num (u ''1'')]\<rparr>,
      \<lparr>cname = ''start_date'', ctype = Object, cells = [Str (u ''05/03/24'')]\<rparr>]\<rparr>"





section \<open>Evaluating text and patterns\<close>

lemmas regex_defs = format_regex_def re_d_def re_m_def re_y_def re_Y_def seq_def alt_def cat_def
  chr_in_def re_digit_def is_digit_def digit_value_def

lemma u_simps: "u [] = []" "u (c # cs) = of_char c # u cs"
  by (simp_all add: u_def)

lemma strip_nonblank_ends:
  "\<not> isspace a \<Longrightarrow> \<not> isspace b \<Longrightarrow> strip (a # s @ [b]) = a # s @ [b]"
  by (simp add: strip_def)

lemma strip_Nil: "strip [] = []"
  by (simp add: strip_def)

lemma lower_nan: "lower W (strip (u ''nan'')) \<in> set sentinels"
  by (simp add: u_simps strip_def isspace_def lower_def lower_ascii_def sentinels_def)

lemma lower_NaN: "lower W (strip (u ''NaN'')) \<in> set sentinels"
  by (simp add: u_simps strip_def isspace_def lower_def lower_ascii_def sentinels_def)

lemma set_sentinels: "set sentinels = {u ''nan'', u ''none'', u ''null''}"
  by (simp add: sentinels_def)

lemma strip_050324: "strip (u ''05/03/24'') = u ''05/03/24''"
  using strip_nonblank_ends [of 48 52 "u ''5/03/2''"] by (simp add: u_simps isspace_def)

lemma strip_05032024: "strip (u ''05/03/2024'') = u ''05/03/2024''"
  using strip_nonblank_ends [of 48 52 "u ''5/03/202''"] by (simp add: u_simps isspace_def)

lemma lower_050324: "lower W (u ''05/03/24'') \<notin> set sentinels"
  by (simp add: u_simps lower_def lower_ascii_def sentinels_def)

lemma lower_05032024: "lower W (u ''05/03/2024'') \<notin> set sentinels"
  by (simp add: u_simps lower_def lower_ascii_def sentinels_def)

lemma strptime_050324:
  "strptime W (u ''05/03/24'') Y2 = Some \<lparr>year = 2024, month = 3, day = 5\<rparr>"
  by (simp add: u_simps strptime_def regex_defs py_int_def strip_def isspace_def
      valid_date_def days_in_month_def is_leap_def)

lemma strptime_05032024_short: "strptime W (u ''05/03/2024'') Y2 = None"
  by (simp add: u_simps strptime_def regex_defs)

lemma strptime_05032024:
  "strptime W (u ''05/03/2024'') Y4 = Some \<lparr>year = 2024, month = 3, day = 5\<rparr>"
  by (simp add: u_simps strptime_def regex_defs py_int_def strip_def isspace_def
      valid_date_def days_in_month_def is_leap_def)

section \<open>The cases of \<open>parse_date_ddmmy\<close>\<close>

text \<open>
  C1. For every cell \<open>v\<close>, \<open>parse_date_ddmmy\<close> gives no date when \<open>v\<close> is null (\<open>None\<close> or
  NaN), or when \<open>str(v)\<close>, trimmed, is empty or in lower case one of nan, none, null;
  otherwise the date of the first of the strict formats DD/MM/YY, DD/MM/YYYY (tried in
  this order) that parses the trimmed string; and when neither does, whatever the
  tolerant day-first parser gives for it, a date or nothing.
\<close>

theorem parse_date_ddmmy_cases:
  "parse_date_ddmmy W v =
     (if v = PyNone \<or> v = NaN \<or> strip (str_cell v) = []
         \<or> lower W (strip (str_cell v)) \<in> {u ''nan'', u ''none'', u ''null''}
      then None
      else case strptime W (strip (str_cell v)) Y2 of
             Some d \<Rightarrow> Some d
           | None \<Rightarrow> (case strptime W (strip (str_cell v)) Y4 of
                        Some d \<Rightarrow> Some d
                      | None \<Rightarrow> to_datetime W (strip (str_cell v))))"
proof (cases v)
  case NaN
  then show ?thesis using lower_nan [of W] by (simp add: parse_date_ddmmy_def)
next
  case PyNone
  then show ?thesis by (simp add: parse_date_ddmmy_def)
next
  case (Str s)
  then show ?thesis
    by (simp add: parse_date_ddmmy_def set_sentinels Let_def split: option.splits)
next
  case (Num t)
  then show ?thesis
    by (simp add: parse_date_ddmmy_def set_sentinels Let_def split: option.splits)
qed

theorem parse_date_ddmmy_cases_witness:
  "parse_date_ddmmy demo_world (Str (u ''05/03/2024'')) = Some \<lparr>year = 2024, month = 3, day = 5\<rparr>"
proof -
  have "lower demo_world (u ''05/03/2024'') \<notin> {u ''nan'', u ''none'', u ''null''}"
    using lower_05032024 [of demo_world] by (simp add: set_sentinels)
  moreover have "u ''05/03/2024'' \<noteq> []"
    by (simp add: u_simps)
  ultimately show ?thesis
    using parse_date_ddmmy_cases [of demo_world "Str (u ''05/03/2024'')"]
    by (simp add: strip_05032024 strptime_05032024_short strptime_05032024)
qed

text \<open>
  C6. \<open>"05/03/24"\<close> and \<open>"05/03/2024"\<close> both parse to 5 March 2024, read as day, month,
  year; the empty string, \<open>"NaN"\<close> and \<open>None\<close> give no date, and no date is written to
  the ISO column as the empty string.
\<close>

theorem parse_date_ddmmy_examples:
  "parse_date_ddmmy W (Str (u ''05/03/24'')) = Some \<lparr>year = 2024, month = 3, day = 5\<rparr>
   \<and> parse_date_ddmmy W (Str (u ''05/03/2024'')) = Some \<lparr>year = 2024, month = 3, day = 5\<rparr>
   \<and> parse_date_ddmmy W (Str []) = None
   \<and> parse_date_ddmmy W (Str (u ''NaN'')) = None
   \<and> parse_date_ddmmy W PyNone = None
   \<and> iso_or_empty (parse_date_ddmmy W (Str [])) = []
   \<and> iso_or_empty (parse_date_ddmmy W (Str (u ''NaN''))) = []
   \<and> iso_or_empty (parse_date_ddmmy W PyNone) = []"
proof -
  have a: "parse_date_ddmmy W (Str (u ''05/03/24'')) = Some \<lparr>year = 2024, month = 3, day = 5\<rparr>"
    using lower_050324 [of W]
    by (simp add: parse_date_ddmmy_def Let_def strip_050324 strptime_050324) (simp add: u_simps)
  have b: "parse_date_ddmmy W (Str (u ''05/03/2024'')) = Some \<lparr>year = 2024, month = 3, day = 5\<rparr>"
    using lower_05032024 [of W]
    by (simp add: parse_date_ddmmy_def Let_def strip_05032024 strptime_05032024_short strptime_05032024)
       (simp add: u_simps)
  have c: "parse_date_ddmmy W (Str []) = None"
    by (simp add: parse_date_ddmmy_def strip_Nil)
  have d: "parse_date_ddmmy W (Str (u ''NaN'')) = None"
    using lower_NaN [of W] by (simp add: parse_date_ddmmy_def)
  have e: "parse_date_ddmmy W PyNone = None"
    by (simp add: parse_date_ddmmy_def)
  show ?thesis
    by (simp add: a b c d e iso_or_empty_def)
qed

theorem parse_date_ddmmy_examples_witness:
  "parse_date_ddmmy demo_world (Str (u ''05/03/24'')) = Some \<lparr>year = 2024, month = 3, day = 5\<rparr>
   \<and> parse_date_ddmmy demo_world (Str (u ''NaN'')) = None
   \<and> iso_or_empty (parse_date_ddmmy demo_world PyNone) = []"
  using parse_date_ddmmy_examples [of demo_world] by (simp add: iso_or_empty_def)

section \<open>Diacritics\<close>



















section \<open>Loading the file\<close>

lemma read_csv_calls_simps [simp]:
  "read_csv_calls [] = []"
  "read_csv_calls (Call_read_csv e # tr) = e # read_csv_calls tr"
  "read_csv_calls (Print m # tr) = read_csv_calls tr"
  "read_csv_calls (tr @ tr') = read_csv_calls tr @ read_csv_calls tr'"
  by (simp_all add: read_csv_calls_def)

lemma printed_simps [simp]:
  "printed [] = []"
  "printed (Call_read_csv e # tr) = printed tr"
  "printed (Print m # tr) = m # printed tr"
  "printed (tr @ tr') = printed tr @ printed tr'"
  by (simp_all add: printed_def)

lemma try_encodings_first_success:
  assumes "i < length cs" and "read_csv W (Some (cs ! i)) = Inr df"
    and "\<forall>j<i. \<exists>e. read_csv W (Some (cs ! j)) = Inl e"
  shows "\<exists>tr le'. try_encodings W cs le = (tr, Some df, le')
           \<and> read_csv_calls tr = map Some (take (Suc i) cs)
           \<and> last (printed tr) = Read_csv_ok (cs ! i)
           \<and> length (printed tr) = Suc i"
  using assms
proof (induction cs arbitrary: i le)
  case Nil
  then show ?case by simp
next
  case (Cons c cs)
  show ?case
  proof (cases i)
    case 0
    with Cons.prems show ?thesis by simp
  next
    case (Suc k)
    from Cons.prems(3) Suc obtain e where e: "read_csv W (Some c) = Inl e" by fastforce
    have "\<forall>j<k. \<exists>e. read_csv W (Some (cs ! j)) = Inl e"
      using Cons.prems(3) Suc by fastforce
    with Cons.IH [of k "Some e"] Cons.prems Suc
    obtain tr le' where "try_encodings W cs (Some e) = (tr, Some df, le')"
      "read_csv_calls tr = map Some (take (Suc k) cs)" "last (printed tr) = Read_csv_ok (cs ! k)"
      "length (printed tr) = Suc k"
      by auto
    with e Suc show ?thesis by (cases "printed tr") auto
  qed
qed

lemma try_encodings_all_fail:
  assumes "\<forall>c\<in>set cs. \<exists>e. read_csv W (Some c) = Inl e"
  shows "\<exists>tr. try_encodings W cs le =
           (tr, None, if cs = [] then le else (case read_csv W (Some (last cs)) of Inl e \<Rightarrow> Some e | Inr _ \<Rightarrow> None))
           \<and> read_csv_calls tr = map Some cs"
  using assms
proof (induction cs arbitrary: le)
  case Nil
  then show ?case by simp
next
  case (Cons c cs)
  then obtain e where e: "read_csv W (Some c) = Inl e" by auto
  from Cons obtain tr where "try_encodings W cs (Some e) =
           (tr, None, if cs = [] then Some e else (case read_csv W (Some (last cs)) of Inl e \<Rightarrow> Some e | Inr _ \<Rightarrow> None))"
     "read_csv_calls tr = map Some cs"
    by fastforce
  with e show ?case by auto
qed


lemma candidates_tried:
  "candidates [g, Some ''utf-8-sig'', Some ''utf-8'', Some ''latin1'', Some ''windows-1252''] =
     (case g of None \<Rightarrow> [] | Some n \<Rightarrow> if n = [] then [] else [n])
       @ [''utf-8-sig'', ''utf-8'', ''latin1'', ''windows-1252'']"
  by (simp add: candidates_def split: option.splits)

lemma load_csv_first_success:
  assumes "cs = candidates [chardet_encoding W, Some ''utf-8-sig'', Some ''utf-8'', Some ''latin1'', Some ''windows-1252'']"
    and "i < length cs" and "read_csv W (Some (cs ! i)) = Inr df"
    and "\<forall>j<i. \<exists>e. read_csv W (Some (cs ! j)) = Inl e"
  shows "snd (load_csv W) = Inr df
         \<and> read_csv_calls (fst (load_csv W)) = map Some (take (Suc i) cs)
         \<and> last (printed (fst (load_csv W))) = Read_csv_ok (cs ! i)"
proof -
  from try_encodings_first_success [OF assms(2,3,4), of None]
  obtain tr le' where t: "try_encodings W cs None = (tr, Some df, le')"
    and c: "read_csv_calls tr = map Some (take (Suc i) cs)"
    and l: "last (printed tr) = Read_csv_ok (cs ! i)" and n: "length (printed tr) = Suc i"
    by blast
  from n have "printed tr \<noteq> []" by auto
  with t c l show ?thesis
    by (simp add: load_csv_def detect_encoding_def assms(1) [symmetric])
qed

lemma load_csv_all_fail:
  assumes "cs = candidates [chardet_encoding W, Some ''utf-8-sig'', Some ''utf-8'', Some ''latin1'', Some ''windows-1252'']"
    and "\<forall>c\<in>set cs. \<exists>e. read_csv W (Some c) = Inl e"
  shows "read_csv_calls (fst (load_csv W)) = map Some cs @ [None]
         \<and> (\<forall>df. read_csv W None = Inr df \<longrightarrow> snd (load_csv W) = Inr df)
         \<and> (\<forall>e e'. read_csv W None = Inl e \<and> read_csv W (Some ''windows-1252'') = Inl e'
               \<longrightarrow> snd (load_csv W) = Inl (Read_error e'))"
proof -
  have ne: "cs \<noteq> []" and la: "last cs = ''windows-1252''"
    by (simp_all add: assms(1) candidates_tried)
  from try_encodings_all_fail [OF assms(2), of None] ne la
  obtain tr where t: "try_encodings W cs None =
      (tr, None, case read_csv W (Some ''windows-1252'') of Inl e \<Rightarrow> Some e | Inr _ \<Rightarrow> None)"
    and c: "read_csv_calls tr = map Some cs"
    by auto
  show ?thesis
    using t c
    by (cases "read_csv W None")
       (auto simp: load_csv_def detect_encoding_def assms(1) [symmetric])
qed

lemma load_csv_latin1:
  assumes "chardet_encoding W = None" and "read_csv W (Some ''utf-8-sig'') = Inl e1"
    and "read_csv W (Some ''utf-8'') = Inl e2" and "read_csv W (Some ''latin1'') = Inr df"
  shows "load_csv W =
     ([Print (Detected_encoding None),
       Call_read_csv (Some ''utf-8-sig''), Print (Failed_with_encoding ''utf-8-sig'' e1),
       Call_read_csv (Some ''utf-8''), Print (Failed_with_encoding ''utf-8'' e2),
       Call_read_csv (Some ''latin1''), Print (Read_csv_ok ''latin1'')], Inr df)"
  using assms by (simp add: load_csv_def detect_encoding_def candidates_def)

text \<open>
  C3. The candidates are the detected guess, if there is one, followed by utf-8-sig, utf-8,
  latin1 and windows-1252, in this order and with no entry removed as a duplicate. The
  frame loaded is the one \<open>read_csv\<close> returns under the first candidate that does not
  fail; \<open>read_csv\<close> has then been called with the candidates up to that one and no
  further, and the last line printed names the encoding chosen. When every candidate
  fails there is one more call, without an encoding; its frame is the one loaded, and
  when it fails too the error raised is \<open>last_err\<close>, the one met under the last
  candidate. In particular, when the detector abstains and utf-8-sig and utf-8 fail but
  latin1 does not, the third call succeeds and latin1 is reported.
\<close>

theorem load_csv_fallback:
  "(let cs = candidates [chardet_encoding W, Some ''utf-8-sig'', Some ''utf-8'', Some ''latin1'', Some ''windows-1252'']
    in cs = (case chardet_encoding W of None \<Rightarrow> [] | Some g \<Rightarrow> if g = [] then [] else [g])
              @ [''utf-8-sig'', ''utf-8'', ''latin1'', ''windows-1252'']
     \<and> (\<forall>i df. i < length cs \<and> read_csv W (Some (cs ! i)) = Inr df
            \<and> (\<forall>j<i. \<exists>e. read_csv W (Some (cs ! j)) = Inl e)
          \<longrightarrow> snd (load_csv W) = Inr df
              \<and> read_csv_calls (fst (load_csv W)) = map Some (take (Suc i) cs)
              \<and> last (printed (fst (load_csv W))) = Read_csv_ok (cs ! i))
     \<and> ((\<forall>c\<in>set cs. \<exists>e. read_csv W (Some c) = Inl e)
          \<longrightarrow> read_csv_calls (fst (load_csv W)) = map Some cs @ [None]
              \<and> (\<forall>df. read_csv W None = Inr df \<longrightarrow> snd (load_csv W) = Inr df)
              \<and> (\<forall>e e'. read_csv W None = Inl e \<and> read_csv W (Some ''windows-1252'') = Inl e'
                    \<longrightarrow> snd (load_csv W) = Inl (Read_error e'))))
   \<and> (chardet_encoding W = None \<and> (\<exists>e. read_csv W (Some ''utf-8-sig'') = Inl e)
        \<and> (\<exists>e. read_csv W (Some ''utf-8'') = Inl e) \<and> read_csv W (Some ''latin1'') = Inr df0
       \<longrightarrow> snd (load_csv W) = Inr df0
           \<and> read_csv_calls (fst (load_csv W)) = [Some ''utf-8-sig'', Some ''utf-8'', Some ''latin1'']
           \<and> last (printed (fst (load_csv W))) = Read_csv_ok ''latin1'')"
proof -
  define cs where "cs = candidates [chardet_encoding W, Some ''utf-8-sig'', Some ''utf-8'', Some ''latin1'', Some ''windows-1252'']"
  have a: "cs = (case chardet_encoding W of None \<Rightarrow> [] | Some g \<Rightarrow> if g = [] then [] else [g])
              @ [''utf-8-sig'', ''utf-8'', ''latin1'', ''windows-1252'']"
    unfolding cs_def by (rule candidates_tried)
  have b: "\<forall>i df. i < length cs \<and> read_csv W (Some (cs ! i)) = Inr df
            \<and> (\<forall>j<i. \<exists>e. read_csv W (Some (cs ! j)) = Inl e)
          \<longrightarrow> snd (load_csv W) = Inr df
              \<and> read_csv_calls (fst (load_csv W)) = map Some (take (Suc i) cs)
              \<and> last (printed (fst (load_csv W))) = Read_csv_ok (cs ! i)"
    using load_csv_first_success [OF cs_def] by blast
  have c: "(\<forall>c\<in>set cs. \<exists>e. read_csv W (Some c) = Inl e)
          \<longrightarrow> read_csv_calls (fst (load_csv W)) = map Some cs @ [None]
              \<and> (\<forall>df. read_csv W None = Inr df \<longrightarrow> snd (load_csv W) = Inr df)
              \<and> (\<forall>e e'. read_csv W None = Inl e \<and> read_csv W (Some ''windows-1252'') = Inl e'
                    \<longrightarrow> snd (load_csv W) = Inl (Read_error e'))"
    using load_csv_all_fail [OF cs_def] by blast
  have d: "chardet_encoding W = None \<and> (\<exists>e. read_csv W (Some ''utf-8-sig'') = Inl e)
        \<and> (\<exists>e. read_csv W (Some ''utf-8'') = Inl e) \<and> read_csv W (Some ''latin1'') = Inr df0
       \<longrightarrow> snd (load_csv W) = Inr df0
           \<and> read_csv_calls (fst (load_csv W)) = [Some ''utf-8-sig'', Some ''utf-8'', Some ''latin1'']
           \<and> last (printed (fst (load_csv W))) = Read_csv_ok ''latin1''"
    by (auto simp: load_csv_latin1)
  from a b c d show ?thesis
    unfolding Let_def cs_def [symmetric] by blast
qed

lemma demo_read_csv:
  "chardet_encoding demo_world = None"
  "read_csv demo_world (Some ''utf-8-sig'') = Inl ''cannot decode''"
  "read_csv demo_world (Some ''utf-8'') = Inl ''cannot decode''"
  "read_csv demo_world (Some ''latin1'') = Inr demo_frame"
  by (simp_all add: demo_world_def)

theorem load_csv_fallback_witness:
  "snd (load_csv demo_world) = Inr demo_frame
   \<and> read_csv_calls (fst (load_csv demo_world)) = [Some ''utf-8-sig'', Some ''utf-8'', Some ''latin1'']
   \<and> last (printed (fst (load_csv demo_world))) = Read_csv_ok ''latin1''"
  using load_csv_fallback [of demo_world demo_frame] demo_read_csv
  by (simp only: Let_def) blast

section \<open>Frames and the stages of the run\<close>

lemma column_names_set_column:
  "column_names (set_column d c vs) =
     (if c \<in> set (column_names d) then column_names d else column_names d @ [c])"
  by (auto simp: set_column_def column_names_def comp_def intro!: map_cong)

lemma nrows_set_column: "nrows (set_column d c vs) = nrows d"
  by (simp add: set_column_def)




lemma foldl_set_column_names:
  "set cs \<subseteq> set (column_names d) \<Longrightarrow>
     column_names (foldl (\<lambda>d c. set_column d c (f d c)) d cs) = column_names d
     \<and> nrows (foldl (\<lambda>d c. set_column d c (f d c)) d cs) = nrows d"
  by (induction cs arbitrary: d) (auto simp: column_names_set_column nrows_set_column)

lemma object_cols_subset: "set (object_cols df) \<subseteq> set (column_names df)"
  by (auto simp: object_cols_def column_names_def)

lemma column_names_normalize_text: "column_names (normalize_text W df) = column_names df"
  using foldl_set_column_names [where d = df and cs = "object_cols df"
      and f = "\<lambda>d c. map (remove_diacritics W) (get_cells d c)"] object_cols_subset [of df]
  by (simp add: normalize_text_def)


lemma missing_normalize_text:
  "missing (normalize_text W df) = filter (\<lambda>c. c \<notin> set (column_names df)) [''start_date'', ''end_date'']"
  by (simp add: missing_def required_def column_names_normalize_text)

lemma main_process:
  "path_exists W \<Longrightarrow> snd (load_csv W) = Inr df \<Longrightarrow>
     main W = (fst (load_csv W) @ fst (process W df), snd (process W df))"
  by (cases "load_csv W"; cases "process W df") (simp add: main_def)

lemma process_missing:
  "missing (normalize_text W df) \<noteq> [] \<Longrightarrow>
     process W df = ([Print (Normalizing (length (object_cols df)))],
                     Inl (Missing_required (missing (normalize_text W df))))"
  by (simp add: process_def Let_def)

lemma process_not_missing:
  "missing (normalize_text W df) = [] \<Longrightarrow> snd (process W df) \<noteq> Inl (Missing_required m)"
  by (simp add: process_def Let_def)

text \<open>
  C8. Once the file is loaded: when \<open>start_date\<close> or \<open>end_date\<close> is not among the
  columns, the run ends in the KeyError of line 98, which names the required columns that
  are absent, all of them and in the order start_date, end_date; a frame that lacks only
  \<open>end_date\<close> gives exactly \<open>["end_date"]\<close>; when both are there, that error is not
  raised.
\<close>

theorem missing_required_columns:
  "path_exists W \<and> snd (load_csv W) = Inr df \<longrightarrow>
     (let absent = filter (\<lambda>c. c \<notin> set (column_names df)) [''start_date'', ''end_date'']
      in (absent \<noteq> [] \<longrightarrow> snd (main W) = Inl (Missing_required absent))
       \<and> (''start_date'' \<in> set (column_names df) \<and> ''end_date'' \<notin> set (column_names df)
            \<longrightarrow> snd (main W) = Inl (Missing_required [''end_date'']))
       \<and> (absent = [] \<longrightarrow> (\<forall>m. snd (main W) \<noteq> Inl (Missing_required m))))"
proof (intro impI, elim conjE)
  assume p: "path_exists W" and l: "snd (load_csv W) = Inr df"
  define absent where "absent = filter (\<lambda>c. c \<notin> set (column_names df)) [''start_date'', ''end_date'']"
  have m: "missing (normalize_text W df) = absent"
    by (simp only: absent_def missing_normalize_text)
  have s: "snd (main W) = snd (process W df)"
    by (simp add: main_process [OF p l])
  have a: "absent \<noteq> [] \<longrightarrow> snd (main W) = Inl (Missing_required absent)"
    using process_missing [of W df] by (simp add: s m)
  have b: "''start_date'' \<in> set (column_names df) \<and> ''end_date'' \<notin> set (column_names df)
            \<longrightarrow> absent = [''end_date'']"
    by (simp add: absent_def)
  have c: "absent = [] \<longrightarrow> (\<forall>m. snd (main W) \<noteq> Inl (Missing_required m))"
    using process_not_missing [of W df] by (simp add: s m)
  from a b c show "let absent = filter (\<lambda>c. c \<notin> set (column_names df)) [''start_date'', ''end_date'']
      in (absent \<noteq> [] \<longrightarrow> snd (main W) = Inl (Missing_required absent))
       \<and> (''start_date'' \<in> set (column_names df) \<and> ''end_date'' \<notin> set (column_names df)
            \<longrightarrow> snd (main W) = Inl (Missing_required [''end_date'']))
       \<and> (absent = [] \<longrightarrow> (\<forall>m. snd (main W) \<noteq> Inl (Missing_required m)))"
    unfolding Let_def absent_def [symmetric] by force
qed

lemma world_with_simps:
  "path_exists (world_with df)" "chardet_encoding (world_with df) = None"
  "read_csv (world_with df) e = Inr df" "to_datetime (world_with df) = to_datetime demo_world"
  by (simp_all add: world_with_def demo_world_def)

lemma load_csv_world_with: "snd (load_csv (world_with df)) = Inr df"
  by (simp add: load_csv_def detect_encoding_def candidates_def world_with_simps)

theorem missing_required_columns_witness:
  "snd (main (world_with frame_without_end_date)) = Inl (Missing_required [''end_date''])"
  using missing_required_columns [of "world_with frame_without_end_date" frame_without_end_date]
  by (simp add: world_with_simps load_csv_world_with Let_def column_names_def frame_without_end_date_def)

section \<open>Rows counted as unparsable\<close>

lemma unparsable_filter:
  "unparsable (map f raws) raws = length (filter (\<lambda>raw. f raw = None \<and> strip (str_cell raw) \<noteq> []) raws)"
  by (induction raws) (auto simp: unparsable_def)

lemma parse_NaN: "parse_date_ddmmy W NaN = None"
  using lower_nan [of W] by (simp add: parse_date_ddmmy_def)

lemma strip_nan: "strip (u ''nan'') = u ''nan''"
  using strip_nonblank_ends [of 110 110 "[97]"] by (simp add: u_simps isspace_def)

text \<open>
  C10. A cell that is the float NaN, as \<open>read_csv\<close> leaves for a blank field, parses to
  no date, because its \<open>str()\<close> is the sentinel \<open>"nan"\<close>; and since \<open>"nan"\<close> trimmed is
  not empty, the row is counted as unparsable: a NaN cell in a column adds one to the
  count of that column.
\<close>

theorem nan_counted_unparsable:
  "parse_date_ddmmy W NaN = None
   \<and> lower W (strip (str_cell NaN)) \<in> set sentinels
   \<and> strip (str_cell NaN) = u ''nan'' \<and> u ''nan'' \<noteq> []
   \<and> unparsable (map (parse_date_ddmmy W) (xs @ NaN # ys)) (xs @ NaN # ys)
       = Suc (unparsable (map (parse_date_ddmmy W) (xs @ ys)) (xs @ ys))"
proof -
  have "u ''nan'' \<noteq> []" by (simp add: u_simps)
  moreover have "lower W (strip (str_cell NaN)) \<in> set sentinels"
    using lower_nan [of W] by simp
  moreover have "unparsable (map (parse_date_ddmmy W) (xs @ NaN # ys)) (xs @ NaN # ys)
       = Suc (unparsable (map (parse_date_ddmmy W) (xs @ ys)) (xs @ ys))"
    unfolding unparsable_filter using \<open>u ''nan'' \<noteq> []\<close> by (simp add: parse_NaN strip_nan)
  ultimately show ?thesis
    by (simp add: parse_NaN strip_nan)
qed

theorem nan_counted_unparsable_witness:
  "parse_date_ddmmy demo_world NaN = None
   \<and> unparsable (map (parse_date_ddmmy demo_world) [Str (u ''05/03/24''), NaN]) [Str (u ''05/03/24''), NaN]
       = Suc (unparsable (map (parse_date_ddmmy demo_world) [Str (u ''05/03/24'')]) [Str (u ''05/03/24'')])"
proof -
  from nan_counted_unparsable [of demo_world "[Str (u ''05/03/24'')]" "[]"]
  have a: "parse_date_ddmmy demo_world NaN = None"
    and b: "unparsable (map (parse_date_ddmmy demo_world) ([Str (u ''05/03/24'')] @ NaN # []))
              ([Str (u ''05/03/24'')] @ NaN # [])
            = Suc (unparsable (map (parse_date_ddmmy demo_world) ([Str (u ''05/03/24'')] @ []))
                ([Str (u ''05/03/24'')] @ []))"
    by blast+
  from b have "unparsable (map (parse_date_ddmmy demo_world) [Str (u ''05/03/24''), NaN]) [Str (u ''05/03/24''), NaN]
       = Suc (unparsable (map (parse_date_ddmmy demo_world) [Str (u ''05/03/24'')]) [Str (u ''05/03/24'')])"
    by (simp only: append.simps)
  with a show ?thesis by blast
qed











section \<open>The sample run, evaluated\<close>














lemmas iso_re_defs = str_match_ISO_RE_def ISO_RE_def re_Y_def re_y_def seq_def cat_def chr_in_def
  re_digit_def is_digit_def digit_value_def



lemma not_match_unpadded: "\<not> str_match_ISO_RE W (u ''2024-3-5'')"
  by (simp add: iso_re_defs u_simps)





section \<open>ISO strings and the format check\<close>

























section \<open>Columns through the stages\<close>



































end
